theory Spec2Isabelle
  imports Main
begin

section \<open>Bytes, strings and runes\<close>

text \<open>
  A Go \<^verbatim>\<open>[]byte\<close> and a Go \<^verbatim>\<open>string\<close> are both sequences of bytes; both are
  modelled as \<^typ>\<open>char list\<close> (a HOL \<^typ>\<open>char\<close> is one byte), so that the
  conversions \<^verbatim>\<open>string(b)\<close> and \<^verbatim>\<open>[]byte(s)\<close> are the identity and \<^verbatim>\<open>len\<close> is
  \<^const>\<open>length\<close>. The numeric value of a byte is \<^term>\<open>of_char c :: nat\<close>. A rune
  (a Unicode code point) is a natural number.
\<close>

type_synonym bytes = "char list"
type_synonym rune = nat

definition RuneError :: rune where
  "RuneError = 0xFFFD"

definition RuneSelf :: nat where
  "RuneSelf = 0x80"

definition UTFMax :: nat where
  "UTFMax = 4"

subsection \<open>unicode/utf8: DecodeRune, DecodeLastRune and EncodeRune\<close>

text \<open>
  The table \<^verbatim>\<open>first\<close> of package utf8 gives, for a leading byte, the size of the
  sequence in its low three bits and the index of the accepted range of the second byte in
  its high four bits; \<^verbatim>\<open>as\<close> marks ASCII and \<^verbatim>\<open>xx\<close> an invalid leading byte.
\<close>

definition first :: "nat \<Rightarrow> nat" where
  "first b =
     (if b < 0x80 then 0xF0
      else if b < 0xC2 then 0xF1
      else if b < 0xE0 then 0x02
      else if b = 0xE0 then 0x13
      else if b < 0xED then 0x03
      else if b = 0xED then 0x23
      else if b < 0xF0 then 0x03
      else if b = 0xF0 then 0x34
      else if b < 0xF4 then 0x04
      else if b = 0xF4 then 0x44
      else 0xF1)"

definition acceptRanges :: "nat \<Rightarrow> nat \<times> nat" where
  "acceptRanges i =
     (if i = 0 then (0x80, 0xBF)
      else if i = 1 then (0xA0, 0xBF)
      else if i = 2 then (0x80, 0x9F)
      else if i = 3 then (0x90, 0xBF)
      else (0x80, 0x8F))"

text \<open>
  \<^verbatim>\<open>DecodeRune\<close> returns the first rune of \<open>p\<close> and its width in bytes;
  \<^verbatim>\<open>(RuneError, 0)\<close> on empty input and \<^verbatim>\<open>(RuneError, 1)\<close> on an invalid encoding.
  The masks \<^verbatim>\<open>p0&mask2\<close>, \<^verbatim>\<open>p0&mask3\<close>, \<^verbatim>\<open>p0&mask4\<close>, \<^verbatim>\<open>b&maskx\<close> are
  \<open>mod 32\<close>, \<open>mod 16\<close>, \<open>mod 8\<close>, \<open>mod 64\<close>; the shifted fields do not overlap, so their
  bitwise or is their sum.
\<close>

definition DecodeRune :: "bytes \<Rightarrow> rune \<times> nat" where
  "DecodeRune p =
     (let n = length p in
      if n < 1 then (RuneError, 0)
      else
        let p0 = of_char (p ! 0); x = first p0 in
        if x \<ge> 0xF0 then (if x = 0xF1 then RuneError else p0, 1)
        else
          let sz = x mod 8; lo = fst (acceptRanges (x div 16)); hi = snd (acceptRanges (x div 16)) in
          if n < sz then (RuneError, 1)
          else
            let b1 = of_char (p ! 1) in
            if b1 < lo \<or> hi < b1 then (RuneError, 1)
            else if sz \<le> 2 then ((p0 mod 32) * 64 + (b1 mod 64), 2)
            else
              let b2 = of_char (p ! 2) in
              if b2 < 0x80 \<or> 0xBF < b2 then (RuneError, 1)
              else if sz \<le> 3 then ((p0 mod 16) * 4096 + (b1 mod 64) * 64 + (b2 mod 64), 3)
              else
                let b3 = of_char (p ! 3) in
                if b3 < 0x80 \<or> 0xBF < b3 then (RuneError, 1)
                else ((p0 mod 8) * 262144 + (b1 mod 64) * 4096 + (b2 mod 64) * 64 + (b3 mod 64), 4))"

definition RuneStart :: "char \<Rightarrow> bool" where
  "RuneStart b = ((of_char b :: nat) div 64 \<noteq> 2)"

text \<open>
  The backward scan of \<^verbatim>\<open>DecodeLastRune\<close>:
  \<^verbatim>\<open>for start--; start >= lim; start-- { if RuneStart(p[start]) { break } }\<close>,
  entered here after the first decrement. The index is a Go \<^verbatim>\<open>int\<close> and may reach \<open>-1\<close>.
\<close>

function scan_back :: "bytes \<Rightarrow> int \<Rightarrow> int \<Rightarrow> int" where
  "scan_back p lim start =
     (if start \<ge> lim then
        (if RuneStart (p ! nat start) then start else scan_back p lim (start - 1))
      else start)"
  by pat_completeness auto
termination
  by (relation "measure (\<lambda>(p, lim, start). nat (start - lim + 1))") auto

declare scan_back.simps [simp del]

definition DecodeLastRune :: "bytes \<Rightarrow> rune \<times> nat" where
  "DecodeLastRune p =
     (let end = length p in
      if end = 0 then (RuneError, 0)
      else
        let r = of_char (p ! (end - 1)) in
        if r < RuneSelf then (r, 1)
        else
          let lim = (if int end - int UTFMax < 0 then 0 else int end - int UTFMax);
              start = scan_back p lim (int end - 1 - 1);
              start = (if start < 0 then 0 else start);
              d = DecodeRune (drop (nat start) p) in
          if nat start + snd d \<noteq> end then (RuneError, 1) else d)"

definition EncodeRune :: "rune \<Rightarrow> bytes" where
  "EncodeRune r =
     (if r \<le> 0x7F then [char_of r]
      else if r \<le> 0x7FF then [char_of (0xC0 + r div 64), char_of (0x80 + r mod 64)]
      else if r > 0x10FFFF \<or> (0xD800 \<le> r \<and> r \<le> 0xDFFF) then [CHR 0xEF, CHR 0xBF, CHR 0xBD]
      else if r \<le> 0xFFFF then
        [char_of (0xE0 + r div 4096), char_of (0x80 + (r div 64) mod 64), char_of (0x80 + r mod 64)]
      else
        [char_of (0xF0 + r div 262144), char_of (0x80 + (r div 4096) mod 64),
         char_of (0x80 + (r div 64) mod 64), char_of (0x80 + r mod 64)])"

subsection \<open>unicode.IsSpace\<close>

definition IsSpace :: "rune \<Rightarrow> bool" where
  "IsSpace r =
     (if r \<le> 0xFF then
        r = 0x09 \<or> r = 0x0A \<or> r = 0x0B \<or> r = 0x0C \<or> r = 0x0D \<or> r = 0x20 \<or> r = 0x85 \<or> r = 0xA0
      else
        r = 0x1680 \<or> (0x2000 \<le> r \<and> r \<le> 0x200A) \<or> r = 0x2028 \<or> r = 0x2029
        \<or> r = 0x202F \<or> r = 0x205F \<or> r = 0x3000)"

subsection \<open>bytes.TrimSpace\<close>

text \<open>
  \<^verbatim>\<open>indexFunc(s, f, truth)\<close> returns the index of the first rune of \<open>s\<close> on which \<open>f\<close>
  answers \<open>truth\<close>, \<^verbatim>\<open>lastIndexFunc\<close> the index of the last one; Go's \<open>-1\<close> is
  \<^const>\<open>None\<close>. The loops are recursions on the index variable. A width is never zero
  on non-empty input, which the recursion makes explicit with \<open>max 1\<close>.
\<close>

function indexFunc_loop :: "bytes \<Rightarrow> (rune \<Rightarrow> bool) \<Rightarrow> bool \<Rightarrow> nat \<Rightarrow> nat option" where
  "indexFunc_loop s f truth start =
     (if start < length s then
        (let r0 = of_char (s ! start);
             d = (if r0 \<ge> RuneSelf then DecodeRune (drop start s) else (r0, 1)) in
         if f (fst d) = truth then Some start
         else indexFunc_loop s f truth (start + max 1 (snd d)))
      else None)"
  by pat_completeness auto
termination
  by (relation "measure (\<lambda>(s, f, truth, start). length s - start)") auto

declare indexFunc_loop.simps [simp del]

definition indexFunc :: "bytes \<Rightarrow> (rune \<Rightarrow> bool) \<Rightarrow> bool \<Rightarrow> nat option" where
  "indexFunc s f truth = indexFunc_loop s f truth 0"

function lastIndexFunc_loop :: "bytes \<Rightarrow> (rune \<Rightarrow> bool) \<Rightarrow> bool \<Rightarrow> nat \<Rightarrow> nat option" where
  "lastIndexFunc_loop s f truth i =
     (if i > 0 then
        (let r0 = of_char (s ! (i - 1));
             d = (if r0 \<ge> RuneSelf then DecodeLastRune (take i s) else (r0, 1));
             i' = i - max 1 (snd d) in
         if f (fst d) = truth then Some i'
         else lastIndexFunc_loop s f truth i')
      else None)"
  by pat_completeness auto
termination
  by (relation "measure (\<lambda>(s, f, truth, i). i)") auto

declare lastIndexFunc_loop.simps [simp del]

definition lastIndexFunc :: "bytes \<Rightarrow> (rune \<Rightarrow> bool) \<Rightarrow> bool \<Rightarrow> nat option" where
  "lastIndexFunc s f truth = lastIndexFunc_loop s f truth (length s)"

definition TrimLeftFunc :: "bytes \<Rightarrow> (rune \<Rightarrow> bool) \<Rightarrow> bytes" where
  "TrimLeftFunc s f =
     (case indexFunc s f False of
        None \<Rightarrow> []
      | Some i \<Rightarrow> drop i s)"

definition TrimRightFunc :: "bytes \<Rightarrow> (rune \<Rightarrow> bool) \<Rightarrow> bytes" where
  "TrimRightFunc s f =
     (case lastIndexFunc s f False of
        None \<Rightarrow> take 0 s
      | Some i \<Rightarrow>
          (if (of_char (s ! i) :: nat) \<ge> RuneSelf
           then take (i + snd (DecodeRune (drop i s))) s
           else take (i + 1) s))"

definition TrimFunc :: "bytes \<Rightarrow> (rune \<Rightarrow> bool) \<Rightarrow> bytes" where
  "TrimFunc s f = TrimRightFunc (TrimLeftFunc s f) f"

definition asciiSpace :: "char \<Rightarrow> bool" where
  "asciiSpace c =
     (c = CHR 0x09 \<or> c = CHR 0x0A \<or> c = CHR 0x0B \<or> c = CHR 0x0C \<or> c = CHR 0x0D \<or> c = CHR 0x20)"

text \<open>
  The two loops of \<^verbatim>\<open>TrimSpace\<close>. Each either leaves the function through the
  Unicode-aware \<^verbatim>\<open>TrimFunc\<close> (\<^const>\<open>Inl\<close>, on meeting a byte that is not ASCII) or ends
  with the index it stopped at (\<^const>\<open>Inr\<close>).
\<close>

function trim_start :: "bytes \<Rightarrow> nat \<Rightarrow> bytes + nat" where
  "trim_start s start =
     (if start < length s then
        (let c = s ! start in
         if (of_char c :: nat) \<ge> RuneSelf then Inl (TrimFunc (drop start s) IsSpace)
         else if \<not> asciiSpace c then Inr start
         else trim_start s (start + 1))
      else Inr start)"
  by pat_completeness auto
termination
  by (relation "measure (\<lambda>(s, start). length s - start)") auto

declare trim_start.simps [simp del]

function trim_stop :: "bytes \<Rightarrow> nat \<Rightarrow> nat \<Rightarrow> bytes + nat" where
  "trim_stop s start stop =
     (if stop > start then
        (let c = s ! (stop - 1) in
         if (of_char c :: nat) \<ge> RuneSelf then Inl (TrimFunc (take (stop - start) (drop start s)) IsSpace)
         else if \<not> asciiSpace c then Inr stop
         else trim_stop s start (stop - 1))
      else Inr stop)"
  by pat_completeness auto
termination
  by (relation "measure (\<lambda>(s, start, stop). stop)") auto

declare trim_stop.simps [simp del]

definition TrimSpace :: "bytes \<Rightarrow> bytes" where
  "TrimSpace s =
     (case trim_start s 0 of
        Inl r \<Rightarrow> r
      | Inr start \<Rightarrow>
          (case trim_stop s start (length s) of
             Inl r \<Rightarrow> r
           | Inr stop \<Rightarrow>
               (if start = stop then [] else take (stop - start) (drop start s))))"

text \<open>
  For the statements below: the code points with the Unicode property White_Space, their
  UTF-8 encodings, and the byte strings that are made of such encodings only.
\<close>

definition space_runes :: "rune list" where
  "space_runes =
     [0x09, 0x0A, 0x0B, 0x0C, 0x0D, 0x20, 0x85, 0xA0, 0x1680,
      0x2000, 0x2001, 0x2002, 0x2003, 0x2004, 0x2005, 0x2006, 0x2007, 0x2008, 0x2009, 0x200A,
      0x2028, 0x2029, 0x202F, 0x205F, 0x3000]"

definition space_encodings :: "bytes list" where
  "space_encodings = map EncodeRune space_runes"

inductive space_run :: "bytes \<Rightarrow> bool" where
  space_run_Nil: "space_run []"
| space_run_Cons: "e \<in> set space_encodings \<Longrightarrow> space_run r \<Longrightarrow> space_run (e @ r)"

definition starts_with_space :: "bytes \<Rightarrow> bool" where
  "starts_with_space x = list_ex (\<lambda>e. take (length e) x = e) space_encodings"

definition ends_with_space :: "bytes \<Rightarrow> bool" where
  "ends_with_space x =
     list_ex (\<lambda>e. length e \<le> length x \<and> drop (length x - length e) x = e) space_encodings"

definition continuation :: "char \<Rightarrow> bool" where
  \<comment> \<open>a byte that can only stand inside a UTF-8 sequence\<close>
  "continuation c = (0x80 \<le> (of_char c :: nat) \<and> (of_char c :: nat) \<le> 0xBF)"


section \<open>The handler: message extraction\<close>

text \<open>
  Lines 24 to 27 of \<^verbatim>\<open>Handle\<close>:
  \<^verbatim>\<open>msg := "default message"; if len(req.Body) > 0 { msg = string(bytes.TrimSpace(req.Body)) }\<close>
\<close>

definition extract_msg :: "bytes \<Rightarrow> string" where
  "extract_msg body = (if length body > 0 then TrimSpace body else ''default message'')"

section \<open>encoding/json: the syntax accepted by the scanner\<close>

text \<open>
  \<^verbatim>\<open>json.Unmarshal\<close> first checks that the whole input is one JSON value
  (\<^verbatim>\<open>checkValid\<close>) and then decodes it. The model reads the input once into a tree; the
  input is valid exactly when the tree exists. A string of the tree holds the bytes that
  \<^verbatim>\<open>unquoteBytes\<close> produces, a number its literal.
\<close>

datatype json =
    JNull
  | JBool bool
  | JNumber string
  | JString string
  | JArray "json list"
  | JObject "(string \<times> json) list"

definition isSpace :: "char \<Rightarrow> bool" where
  \<comment> \<open>scanner.go: space, tab, carriage return, line feed\<close>
  "isSpace c = (c = CHR 0x20 \<or> c = CHR 0x09 \<or> c = CHR 0x0D \<or> c = CHR 0x0A)"

definition skip_space :: "bytes \<Rightarrow> nat" where
  "skip_space cs = length (takeWhile isSpace cs)"

definition is_digit :: "char \<Rightarrow> bool" where
  "is_digit c = (0x30 \<le> (of_char c :: nat) \<and> (of_char c :: nat) \<le> 0x39)"

definition digits_len :: "bytes \<Rightarrow> nat" where
  "digits_len cs = length (takeWhile is_digit cs)"

definition hex_val :: "char \<Rightarrow> nat option" where
  "hex_val c =
     (let n = (of_char c :: nat) in
      if 0x30 \<le> n \<and> n \<le> 0x39 then Some (n - 0x30)
      else if 0x61 \<le> n \<and> n \<le> 0x66 then Some (n - 0x61 + 10)
      else if 0x41 \<le> n \<and> n \<le> 0x46 then Some (n - 0x41 + 10)
      else None)"

text \<open>
  \<^verbatim>\<open>stateInString\<close> and its escape states, entered after the opening quote: the number
  of bytes up to and including the closing quote, or \<^const>\<open>None\<close> where the scanner
  reports an error (a control character, an unknown escape, a \<^verbatim>\<open>\u\<close> without four
  hexadecimal digits, or the end of the input).
\<close>

fun scan_string :: "bytes \<Rightarrow> nat option" where
  "scan_string [] = None"
| "scan_string (c # cs) =
     (if c = CHR 0x22 then Some 1
      else if c = CHR 0x5C then
        (case cs of
           [] \<Rightarrow> None
         | e # cs' \<Rightarrow>
             (if e \<in> set [CHR ''b'', CHR ''f'', CHR ''n'', CHR ''r'', CHR ''t'', CHR 0x5C, CHR ''/'', CHR 0x22]
              then map_option (\<lambda>k. k + 2) (scan_string cs')
              else if e = CHR ''u'' then
                (if length cs' \<ge> 4 \<and> list_all (\<lambda>h. hex_val h \<noteq> None) (take 4 cs')
                 then map_option (\<lambda>k. k + 6) (scan_string (drop 4 cs'))
                 else None)
              else None))
      else if (of_char c :: nat) < 0x20 then None
      else map_option Suc (scan_string cs))"

text \<open>
  The number states (\<^verbatim>\<open>stateNeg\<close>, \<^verbatim>\<open>state0\<close>, \<^verbatim>\<open>state1\<close>, \<^verbatim>\<open>stateDot\<close>,
  \<^verbatim>\<open>stateDot0\<close>, \<^verbatim>\<open>stateE\<close>, \<^verbatim>\<open>stateESign\<close>, \<^verbatim>\<open>stateE0\<close>): the length of the
  number literal at the head of the input, or \<^const>\<open>None\<close> where a state that needs a
  digit meets something else. The byte after the literal is left to the caller.
\<close>

definition scan_exp :: "bytes \<Rightarrow> nat option" where
  "scan_exp cs =
     (case cs of
        [] \<Rightarrow> Some 0
      | c # r \<Rightarrow>
          (if c = CHR ''e'' \<or> c = CHR ''E'' then
             (let s = (case r of [] \<Rightarrow> 0 | g # _ \<Rightarrow> if g = CHR ''+'' \<or> g = CHR ''-'' then 1 else (0::nat));
                  n = digits_len (drop s r) in
              if n = 0 then None else Some (1 + s + n))
           else Some 0))"

definition scan_frac :: "bytes \<Rightarrow> nat option" where
  "scan_frac cs =
     (case cs of
        [] \<Rightarrow> Some 0
      | c # r \<Rightarrow>
          (if c = CHR ''.'' then
             (let n = digits_len r in
              if n = 0 then None
              else map_option (\<lambda>k. 1 + n + k) (scan_exp (drop n r)))
           else scan_exp cs))"

definition scan_number :: "bytes \<Rightarrow> nat option" where
  "scan_number cs =
     (let s = (case cs of [] \<Rightarrow> 0 | c # _ \<Rightarrow> if c = CHR ''-'' then 1 else (0::nat)) in
      case drop s cs of
        [] \<Rightarrow> None
      | c # r \<Rightarrow>
          (if c = CHR ''0'' then map_option (\<lambda>k. s + 1 + k) (scan_frac r)
           else if is_digit c then
             (let n = digits_len r in map_option (\<lambda>k. s + 1 + n + k) (scan_frac (drop n r)))
           else None))"

subsection \<open>unicode/utf16 and unquoteBytes\<close>

text \<open>
  \<^verbatim>\<open>getu4\<close> reads a \<^verbatim>\<open>\uXXXX\<close> at the head of its argument; Go's \<open>-1\<close> is
  \<^const>\<open>None\<close>.
\<close>

definition getu4 :: "bytes \<Rightarrow> rune option" where
  "getu4 s =
     (if length s < 6 \<or> s ! 0 \<noteq> CHR 0x5C \<or> s ! 1 \<noteq> CHR ''u'' then None
      else
        (case (hex_val (s ! 2), hex_val (s ! 3), hex_val (s ! 4), hex_val (s ! 5)) of
           (Some a, Some b, Some c, Some d) \<Rightarrow> Some (((a * 16 + b) * 16 + c) * 16 + d)
         | _ \<Rightarrow> None))"

definition utf16_IsSurrogate :: "rune \<Rightarrow> bool" where
  "utf16_IsSurrogate r = (0xD800 \<le> r \<and> r < 0xE000)"

definition utf16_DecodeRune :: "rune \<Rightarrow> rune option \<Rightarrow> rune" where
  "utf16_DecodeRune r1 r2 =
     (case r2 of
        None \<Rightarrow> RuneError
      | Some r2' \<Rightarrow>
          (if 0xD800 \<le> r1 \<and> r1 < 0xDC00 \<and> 0xDC00 \<le> r2' \<and> r2' < 0xE000
           then (r1 - 0xD800) * 1024 + (r2' - 0xDC00) + 0x10000
           else RuneError))"

text \<open>
  \<^verbatim>\<open>unquoteBytes\<close> on the bytes between the quotes of a string literal: escapes are
  replaced, a surrogate pair of \<^verbatim>\<open>\u\<close> escapes becomes one rune, a lone surrogate and
  every byte sequence that is not UTF-8 become U+FFFD. \<^const>\<open>None\<close> is the result
  \<^verbatim>\<open>ok = false\<close>. (The function's fast path returns an input without escapes and
  with valid UTF-8 unchanged, which is what the general loop computes for it.)
\<close>

fun unquoteBytes :: "bytes \<Rightarrow> bytes option" where
  "unquoteBytes [] = Some []"
| "unquoteBytes (c # cs) =
     (if c = CHR 0x5C then
        (case cs of
           [] \<Rightarrow> None
         | e # cs' \<Rightarrow>
             (if e = CHR 0x22 \<or> e = CHR 0x5C \<or> e = CHR ''/'' \<or> e = CHR 0x27
              then map_option (\<lambda>t. e # t) (unquoteBytes cs')
              else if e = CHR ''b'' then map_option (\<lambda>t. CHR 0x08 # t) (unquoteBytes cs')
              else if e = CHR ''f'' then map_option (\<lambda>t. CHR 0x0C # t) (unquoteBytes cs')
              else if e = CHR ''n'' then map_option (\<lambda>t. CHR 0x0A # t) (unquoteBytes cs')
              else if e = CHR ''r'' then map_option (\<lambda>t. CHR 0x0D # t) (unquoteBytes cs')
              else if e = CHR ''t'' then map_option (\<lambda>t. CHR 0x09 # t) (unquoteBytes cs')
              else if e = CHR ''u'' then
                (case getu4 (c # cs) of
                   None \<Rightarrow> None
                 | Some rr \<Rightarrow>
                     (if utf16_IsSurrogate rr then
                        (let dec = utf16_DecodeRune rr (getu4 (drop 5 cs)) in
                         if dec \<noteq> RuneError
                         then map_option (\<lambda>t. EncodeRune dec @ t) (unquoteBytes (drop 11 cs))
                         else map_option (\<lambda>t. EncodeRune RuneError @ t) (unquoteBytes (drop 5 cs)))
                      else map_option (\<lambda>t. EncodeRune rr @ t) (unquoteBytes (drop 5 cs))))
              else None))
      else if c = CHR 0x22 \<or> (of_char c :: nat) < 0x20 then None
      else if (of_char c :: nat) < RuneSelf then map_option (\<lambda>t. c # t) (unquoteBytes cs)
      else
        (let d = DecodeRune (c # cs) in
         map_option (\<lambda>t. EncodeRune (fst d) @ t) (unquoteBytes (drop (snd d - 1) cs))))"


subsection \<open>Values, arrays and objects\<close>

definition maxNestingDepth :: nat where
  "maxNestingDepth = 10000"

text \<open>
  One value at the head of the input, after optional white space: the tree and the number
  of bytes read. \<open>d\<close> is the number of arrays and objects that are open
  (\<^verbatim>\<open>len(s.parseState)\<close>); opening one more fails beyond \<^const>\<open>maxNestingDepth\<close>.
  \<open>parse_elems\<close> reads the elements of an array from its first element to the closing
  bracket, \<open>parse_members\<close> the members of an object from the quote of its first key to the
  closing brace. What follows a value is the caller's to check, as in
  \<^verbatim>\<open>stateEndValue\<close>.
\<close>

datatype sep = SepClose nat | SepComma nat | SepBad

definition next_sep :: "char \<Rightarrow> bytes \<Rightarrow> sep" where
  \<comment> \<open>\<^verbatim>\<open>stateEndValue\<close> inside an array or object: white space, then the closing
      byte or a comma; the number of bytes read\<close>
  "next_sep close cs =
     (let w = skip_space cs in
      case drop w cs of
        [] \<Rightarrow> SepBad
      | c # _ \<Rightarrow>
          (if c = close then SepClose (w + 1)
           else if c = CHR '','' then SepComma (w + 1)
           else SepBad))"

definition parse_scalar :: "bytes \<Rightarrow> (json \<times> nat) option" where
  \<comment> \<open>a string, a number or one of the literals at the head of the input\<close>
  "parse_scalar cs =
     (case cs of
        [] \<Rightarrow> None
      | c # r \<Rightarrow>
          (if c = CHR 0x22 then
             (case scan_string r of
                None \<Rightarrow> None
              | Some n \<Rightarrow> map_option (\<lambda>t. (JString t, 1 + n)) (unquoteBytes (take (n - 1) r)))
           else if c = CHR ''-'' \<or> is_digit c then
             map_option (\<lambda>n. (JNumber (take n cs), n)) (scan_number cs)
           else if take 4 cs = ''true'' then Some (JBool True, 4)
           else if take 5 cs = ''false'' then Some (JBool False, 5)
           else if take 4 cs = ''null'' then Some (JNull, 4)
           else None))"

definition scan_key :: "bytes \<Rightarrow> (string \<times> nat) option" where
  \<comment> \<open>after the opening quote of a key: the key, white space and the colon; the number
      of bytes read\<close>
  "scan_key cs =
     (case scan_string cs of
        None \<Rightarrow> None
      | Some n \<Rightarrow>
          (case unquoteBytes (take (n - 1) cs) of
             None \<Rightarrow> None
           | Some key \<Rightarrow>
               (let w = skip_space (drop n cs) in
                case drop (n + w) cs of
                  [] \<Rightarrow> None
                | c # _ \<Rightarrow> if c = CHR '':'' then Some (key, n + w + 1) else None)))"

definition closes :: "char \<Rightarrow> bytes \<Rightarrow> bool" where
  "closes close cs = (case cs of [] \<Rightarrow> False | c # _ \<Rightarrow> c = close)"

function parse_value :: "nat \<Rightarrow> bytes \<Rightarrow> (json \<times> nat) option"
  and parse_elems :: "nat \<Rightarrow> bytes \<Rightarrow> (json list \<times> nat) option"
  and parse_members :: "nat \<Rightarrow> bytes \<Rightarrow> ((string \<times> json) list \<times> nat) option"
where
  "parse_value d [] = None"
| "parse_value d (c # cs) =
     (if isSpace c then map_option (\<lambda>(v, k). (v, k + 1)) (parse_value d cs)
      else if c = CHR ''{'' then
        (if d + 1 > maxNestingDepth then None
         else if drop (skip_space cs) cs = [] then None
         else if closes (CHR ''}'') (drop (skip_space cs) cs) then Some (JObject [], 1 + skip_space cs + 1)
         else map_option (\<lambda>(ms, k). (JObject ms, 1 + skip_space cs + k))
                (parse_members (d + 1) (drop (skip_space cs) cs)))
      else if c = CHR ''['' then
        (if d + 1 > maxNestingDepth then None
         else if drop (skip_space cs) cs = [] then None
         else if closes (CHR '']'') (drop (skip_space cs) cs) then Some (JArray [], 1 + skip_space cs + 1)
         else map_option (\<lambda>(vs, k). (JArray vs, 1 + skip_space cs + k))
                (parse_elems (d + 1) (drop (skip_space cs) cs)))
      else parse_scalar (c # cs))"
| "parse_elems d [] = None"
| "parse_elems d (c # cs) =
     (case parse_value d (c # cs) of
        None \<Rightarrow> None
      | Some (v, k) \<Rightarrow>
          (case next_sep (CHR '']'') (drop (k - 1) cs) of
             SepBad \<Rightarrow> None
           | SepClose w \<Rightarrow> Some ([v], k + w)
           | SepComma w \<Rightarrow>
               map_option (\<lambda>(vs, k'). (v # vs, k + w + k')) (parse_elems d (drop (k - 1 + w) cs))))"
| "parse_members d [] = None"
| "parse_members d (c # cs) =
     (if c \<noteq> CHR 0x22 then None
      else
        (case scan_key cs of
           None \<Rightarrow> None
         | Some (key, n) \<Rightarrow>
             (case parse_value d (drop n cs) of
                None \<Rightarrow> None
              | Some (v, k) \<Rightarrow>
                  (case next_sep (CHR ''}'') (drop (n + k) cs) of
                     SepBad \<Rightarrow> None
                   | SepClose w \<Rightarrow> Some ([(key, v)], 1 + n + k + w)
                   | SepComma w \<Rightarrow>
                       map_option (\<lambda>(ms, k'). ((key, v) # ms, 1 + n + k + w + skip_space (drop (n + k + w) cs) + k'))
                         (parse_members d (drop (n + k + w + skip_space (drop (n + k + w) cs)) cs))))))"
  by pat_completeness auto
termination
  by (relation "measure (\<lambda>x. case x of
          Inl (d, cs) \<Rightarrow> 2 * length cs
        | Inr (Inl (d, cs)) \<Rightarrow> 2 * length cs + 1
        | Inr (Inr (d, cs)) \<Rightarrow> 2 * length cs + 1)") auto

text \<open>
  \<^verbatim>\<open>checkValid\<close> together with the reading of the value: one value, then white space
  only (\<^verbatim>\<open>stateEndTop\<close>). \<^const>\<open>None\<close> is a \<^verbatim>\<open>*json.SyntaxError\<close>; the empty input
  gives it (\<^verbatim>\<open>unexpected end of JSON input\<close>).
\<close>

definition parse_json :: "bytes \<Rightarrow> json option" where
  "parse_json data =
     (case parse_value 0 data of
        None \<Rightarrow> None
      | Some (v, k) \<Rightarrow> if list_all isSpace (drop k data) then Some v else None)"


section \<open>encoding/json: decoding into MessageBody\<close>

subsection \<open>Numbers stored in an interface value\<close>

text \<open>
  A number that reaches a field of type \<^verbatim>\<open>interface{}\<close> is converted by
  \<^verbatim>\<open>strconv.ParseFloat(s, 64)\<close>, and a range error of the conversion is saved as the
  error of the whole \<^verbatim>\<open>Unmarshal\<close>. No floating point value is modelled, only whether
  the conversion overflows: the literal is read as \<^verbatim>\<open>decimal.set\<close> reads it (at most
  800 significant digits are kept, digits of the integer part beyond them do not move the
  decimal point, the exponent stops growing at 10000), and the value
  \<open>m \<times> 10\<^bsup>dp - nd\<^esup>\<close> rounds to infinity exactly when it is at least
  \<open>2\<^bsup>1024\<^esup> - 2\<^bsup>970\<^esup>\<close>, half a unit in the last place above the largest
  \<^verbatim>\<open>float64\<close>.
\<close>

definition digit_val :: "char \<Rightarrow> nat" where
  "digit_val c = of_char c - 0x30"

definition set_step :: "int \<times> nat \<times> int \<times> bool \<Rightarrow> char \<Rightarrow> int \<times> nat \<times> int \<times> bool" where
  \<comment> \<open>the state is the digits kept (as a number), their count \<open>nd\<close>, the decimal point
      \<open>dp\<close> and \<open>sawdot\<close>\<close>
  "set_step st c =
     (case st of (m, nd, dp, sawdot) \<Rightarrow>
        if c = CHR ''.'' then (m, nd, int nd, True)
        else if c = CHR ''0'' \<and> nd = 0 then (m, nd, dp - 1, sawdot)
        else if nd < 800 then (m * 10 + int (digit_val c), nd + 1, dp, sawdot)
        else (m, nd, dp, sawdot))"

definition exp_step :: "int \<Rightarrow> char \<Rightarrow> int" where
  "exp_step e c = (if e < 10000 then e * 10 + int (digit_val c) else e)"

definition is_e :: "char \<Rightarrow> bool" where
  "is_e c = (c = CHR ''e'' \<or> c = CHR ''E'')"

definition float64_overflows :: "string \<Rightarrow> bool" where
  "float64_overflows s =
     (let body = (case s of [] \<Rightarrow> [] | c # r \<Rightarrow> if c = CHR ''-'' then r else s);
          mant = takeWhile (\<lambda>c. \<not> is_e c) body;
          ex = drop (length mant + 1) body;
          esign = (case ex of [] \<Rightarrow> 1 | c # _ \<Rightarrow> if c = CHR ''-'' then - 1 else (1::int));
          edigits = (case ex of [] \<Rightarrow> [] | c # r \<Rightarrow> if c = CHR ''-'' \<or> c = CHR ''+'' then r else ex);
          st = foldl set_step (0, 0, 0, False) mant;
          m = fst st;
          nd = fst (snd st);
          dp = (if snd (snd (snd st)) then fst (snd (snd st)) else int nd) + esign * foldl exp_step 0 edigits;
          limit = (2::int) ^ 1024 - 2 ^ 970
      in if dp - int nd \<ge> 0 then m * 10 ^ nat (dp - int nd) \<ge> limit
         else m \<ge> limit * 10 ^ nat (int nd - dp))"

fun has_range_error :: "json \<Rightarrow> bool" where
  "has_range_error (JNumber s) = float64_overflows s"
| "has_range_error (JArray vs) = list_ex has_range_error vs"
| "has_range_error (JObject ms) = list_ex (\<lambda>m. has_range_error (snd m)) ms"
| "has_range_error JNull = False"
| "has_range_error (JBool b) = False"
| "has_range_error (JString t) = False"

subsection \<open>The struct and its fields\<close>

text \<open>
  \<^verbatim>\<open>type MessageBody struct { InboxId string; Output interface{}; Runner string }\<close> with
  the tags \<^verbatim>\<open>inbox_id\<close>, \<^verbatim>\<open>output\<close>, \<^verbatim>\<open>runner\<close>. The value of \<^verbatim>\<open>Output\<close> is never
  read by the handler; it is kept as the JSON tree it was decoded from, \<^const>\<open>None\<close>
  being \<^verbatim>\<open>nil\<close>.
\<close>

record MessageBody =
  InboxId :: string
  Output :: "json option"
  Runner :: string

definition zero_MessageBody :: MessageBody where
  "zero_MessageBody = \<lparr>InboxId = [], Output = None, Runner = []\<rparr>"

datatype field = F_inbox_id | F_output | F_runner

definition and_caseMask :: "char \<Rightarrow> nat" where
  \<comment> \<open>\<^verbatim>\<open>b & caseMask\<close> with \<^verbatim>\<open>caseMask = ^byte(0x20)\<close>\<close>
  "and_caseMask b = (of_char b :: nat) - 32 * (((of_char b :: nat) div 32) mod 2)"

definition is_letter :: "char \<Rightarrow> bool" where
  "is_letter b =
     ((0x61 \<le> (of_char b :: nat) \<and> (of_char b :: nat) \<le> 0x7A) \<or>
      (0x41 \<le> (of_char b :: nat) \<and> (of_char b :: nat) \<le> 0x5A))"

fun asciiEqualFold :: "bytes \<Rightarrow> bytes \<Rightarrow> bool" where
  "asciiEqualFold [] [] = True"
| "asciiEqualFold (sb # s) (tb # t) =
     (if sb = tb then asciiEqualFold s t
      else if is_letter sb then (and_caseMask sb = and_caseMask tb \<and> asciiEqualFold s t)
      else False)"
| "asciiEqualFold _ _ = False"

fun simpleLetterEqualFold :: "bytes \<Rightarrow> bytes \<Rightarrow> bool" where
  "simpleLetterEqualFold [] [] = True"
| "simpleLetterEqualFold (b # s) (tb # t) =
     (and_caseMask b = and_caseMask tb \<and> simpleLetterEqualFold s t)"
| "simpleLetterEqualFold _ _ = False"

text \<open>
  The field for a key of the input: a field whose name is the key, otherwise the first
  field, in the order of the struct, whose name equals the key under the field's fold
  function. \<^verbatim>\<open>foldFunc\<close> chooses \<^verbatim>\<open>asciiEqualFold\<close> for \<^verbatim>\<open>inbox_id\<close> (it has an
  underscore) and \<^verbatim>\<open>simpleLetterEqualFold\<close> for \<^verbatim>\<open>output\<close> and \<^verbatim>\<open>runner\<close> (letters
  only, none of them k or s). Later releases fold the key instead and find the same field
  for these three names.
\<close>

definition find_field :: "string \<Rightarrow> field option" where
  "find_field key =
     (if key = ''inbox_id'' then Some F_inbox_id
      else if key = ''output'' then Some F_output
      else if key = ''runner'' then Some F_runner
      else if asciiEqualFold ''inbox_id'' key then Some F_inbox_id
      else if simpleLetterEqualFold ''output'' key then Some F_output
      else if simpleLetterEqualFold ''runner'' key then Some F_runner
      else None)"

datatype error = NatsError string | SyntaxError | UnmarshalTypeError

text \<open>
  One member of the object, decoded into the struct built so far; the second component is
  \<^verbatim>\<open>d.savedError\<close>, which keeps the first error while decoding goes on. A string field
  takes a JSON string, ignores \<^verbatim>\<open>null\<close> and rejects every other value; the interface
  field takes every value (\<^verbatim>\<open>null\<close> sets it to \<^verbatim>\<open>nil\<close>); a member that has no field
  is skipped.
\<close>

definition decode_member :: "MessageBody \<times> error option \<Rightarrow> string \<times> json \<Rightarrow> MessageBody \<times> error option" where
  "decode_member st m =
     (case st of (mb, saved) \<Rightarrow>
      let save = (case saved of None \<Rightarrow> Some UnmarshalTypeError | Some e \<Rightarrow> Some e) in
      case find_field (fst m) of
        None \<Rightarrow> (mb, saved)
      | Some F_inbox_id \<Rightarrow>
          (case snd m of
             JString t \<Rightarrow> (mb\<lparr>InboxId := t\<rparr>, saved)
           | JNull \<Rightarrow> (mb, saved)
           | _ \<Rightarrow> (mb, save))
      | Some F_runner \<Rightarrow>
          (case snd m of
             JString t \<Rightarrow> (mb\<lparr>Runner := t\<rparr>, saved)
           | JNull \<Rightarrow> (mb, saved)
           | _ \<Rightarrow> (mb, save))
      | Some F_output \<Rightarrow>
          (case snd m of
             JNull \<Rightarrow> (mb\<lparr>Output := None\<rparr>, saved)
           | v \<Rightarrow> (mb\<lparr>Output := Some v\<rparr>, if has_range_error v then save else saved)))"

definition decode_value :: "json \<Rightarrow> error + MessageBody" where
  \<comment> \<open>the top-level value into the zero struct: \<^verbatim>\<open>null\<close> leaves it as it is, an object
      fills it, every other value is a type error\<close>
  "decode_value v =
     (case v of
        JNull \<Rightarrow> Inr zero_MessageBody
      | JObject ms \<Rightarrow>
          (case foldl decode_member (zero_MessageBody, None) ms of
             (mb, None) \<Rightarrow> Inr mb
           | (mb, Some e) \<Rightarrow> Inl e)
      | _ \<Rightarrow> Inl UnmarshalTypeError)"

definition Unmarshal :: "bytes \<Rightarrow> error + MessageBody" where
  "Unmarshal data =
     (case parse_json data of
        None \<Rightarrow> Inl SyntaxError
      | Some v \<Rightarrow> decode_value v)"


section \<open>The handler\<close>

text \<open>
  The request and the response of the function runtime. \<^verbatim>\<open>Handle\<close> reads only the body
  of the request and sets only the body and the status code of the response (the field
  \<^verbatim>\<open>Body\<close> of \<^verbatim>\<open>handler.Response\<close> is \<open>RespBody\<close> here, a record field name being
  global).
\<close>

record Request =
  Body :: bytes

record Response =
  RespBody :: bytes
  StatusCode :: nat

definition StatusOK :: nat where
  "StatusOK = 200"

definition StatusInternalServerError :: nat where
  "StatusInternalServerError = 500"

text \<open>
  The broker is outside the program. Its part in one invocation is the result of
  \<^verbatim>\<open>nats.Connect\<close> (\<^const>\<open>None\<close> for a connection, otherwise the text of the error)
  and the result of \<^verbatim>\<open>nc.PublishRequest(subj, reply, data)\<close> for every subject, reply
  address and payload.
\<close>

record Broker =
  connect_error :: "string option"
  publish_error :: "string \<Rightarrow> string \<Rightarrow> bytes \<Rightarrow> string option"

text \<open>
  What an invocation does to the outside, in program order: the lines it prints and logs
  (a \<^verbatim>\<open>log.Printf\<close> is kept as its format and arguments), and its calls to the broker
  client and to the decoder. \<^verbatim>\<open>defer nc.Close()\<close> runs when \<^verbatim>\<open>Handle\<close> returns, so
  \<open>Close\<close> is the last event of every path that connected.
\<close>

datatype arg = ArgBytes bytes | ArgString string | ArgInt nat | ArgError error

datatype event =
    Println string
  | LogPrintf string "arg list"
  | Connect string string
  | JsonUnmarshal bytes
  | PublishRequest string string bytes
  | Close

function itoa :: "nat \<Rightarrow> string" where
  "itoa n = (if n < 10 then [char_of (0x30 + n)] else itoa (n div 10) @ [char_of (0x30 + n mod 10)])"
  by pat_completeness auto
termination
  by (relation "measure (\<lambda>n. n)") auto

declare itoa.simps [simp del]

definition Handle :: "Broker \<Rightarrow> Request \<Rightarrow> (Response \<times> error option) \<times> event list" where
  "Handle nats req =
     (let tr0 = [Println (''Received body: '' @ Body req)];
          msg = extract_msg (Body req);
          tr1 = tr0 @ [Connect ''tls://connect.ngs.global'' ''/var/openfaas/secrets/nts-tkn''];
          err = map_option NatsError (connect_error nats)
      in
      case connect_error nats of
        Some e \<Rightarrow>
          (let errMsg = ''can not connect to nats: '' @ e;
               r = \<lparr>RespBody = errMsg, StatusCode = StatusInternalServerError\<rparr>
           in ((r, err), tr1 @ [LogPrintf errMsg []]))
      | None \<Rightarrow>
          (let tr2 = tr1 @ [LogPrintf ''request body: %s'' [ArgBytes (Body req)], JsonUnmarshal (Body req)] in
           case Unmarshal (Body req) of
             Inl jsonErr \<Rightarrow>
               (let r = \<lparr>RespBody = ''Error unmarshalling request body'',
                        StatusCode = StatusInternalServerError\<rparr>
                in ((r, err),
                    tr2 @ [LogPrintf ''Error unmarshalling request body: %s'' [ArgError jsonErr], Close]))
           | Inr messageBody \<Rightarrow>
               (let inboxId = InboxId messageBody;
                    runner = Runner messageBody;
                    tr3 = tr2 @ [LogPrintf ''Publishing %d bytes to: %q\<newline>'' [ArgInt (length msg), ArgString inboxId],
                                 PublishRequest (runner @ ''.response'') inboxId msg]
                in
                case publish_error nats (runner @ ''.response'') inboxId msg of
                  Some e \<Rightarrow>
                    (let r = \<lparr>RespBody = ''can not publish to NATS: '' @ e,
                             StatusCode = StatusInternalServerError\<rparr>
                     in ((r, Some (NatsError e)),
                         tr3 @ [LogPrintf ''Error publishing to nats: %s'' [ArgError (NatsError e)], Close]))
                | None \<Rightarrow>
                    (let r = \<lparr>RespBody = ''Published '' @ itoa (length msg) @ '' bytes to: \"runner\"'',
                             StatusCode = StatusOK\<rparr>
                     in ((r, None), tr3 @ [Close])))))"

definition response :: "(Response \<times> error option) \<times> event list \<Rightarrow> Response" where
  "response out = fst (fst out)"

definition returned_error :: "(Response \<times> error option) \<times> event list \<Rightarrow> error option" where
  "returned_error out = snd (fst out)"

definition trace :: "(Response \<times> error option) \<times> event list \<Rightarrow> event list" where
  "trace out = snd out"

fun is_publish :: "event \<Rightarrow> bool" where
  "is_publish (PublishRequest subj reply data) = True"
| "is_publish _ = False"

fun is_decode :: "event \<Rightarrow> bool" where
  "is_decode (JsonUnmarshal data) = True"
| "is_decode _ = False"

definition publishes :: "event list \<Rightarrow> event list" where
  "publishes tr = filter is_publish tr"

definition decodes :: "event list \<Rightarrow> event list" where
  "decodes tr = filter is_decode tr"


subsection \<open>Bodies that decode\<close>




definition broker_ok :: Broker where
  \<comment> \<open>a broker that accepts the connection and every publish\<close>
  "broker_ok = \<lparr>connect_error = None, publish_error = (\<lambda>subj reply data. None)\<rparr>"


subsection \<open>Sample brokers and bodies\<close>

definition broker_down :: Broker where
  \<comment> \<open>a broker that cannot be reached\<close>
  "broker_down = \<lparr>connect_error = Some ''nats: no servers available for connection'',
                  publish_error = (\<lambda>subj reply data. None)\<rparr>"

definition broker_closed :: Broker where
  \<comment> \<open>a broker that accepts the connection and fails every publish\<close>
  "broker_closed = \<lparr>connect_error = None,
                    publish_error = (\<lambda>subj reply data. Some ''nats: connection closed'')\<rparr>"

definition env1 :: bytes where
  "env1 = '' {\"inbox_id\":\"abc123\",\"runner\":\"workerA\",\"output\":[1,{}]}\<newline>''"

definition env2 :: bytes where
  "env2 = ''{\"runner\":\"workerA\"}''"



section \<open>Properties of the message extraction\<close>

lemma asciiSpace_ascii: "asciiSpace c \<Longrightarrow> (of_char c :: nat) < RuneSelf"
  by (auto simp: asciiSpace_def RuneSelf_def)

lemma space_encodings_list:
  "space_encodings =
     [[CHR 0x09], [CHR 0x0A], [CHR 0x0B], [CHR 0x0C], [CHR 0x0D], [CHR 0x20],
      [CHR 0xC2, CHR 0x85], [CHR 0xC2, CHR 0xA0], [CHR 0xE1, CHR 0x9A, CHR 0x80],
      [CHR 0xE2, CHR 0x80, CHR 0x80], [CHR 0xE2, CHR 0x80, CHR 0x81], [CHR 0xE2, CHR 0x80, CHR 0x82],
      [CHR 0xE2, CHR 0x80, CHR 0x83], [CHR 0xE2, CHR 0x80, CHR 0x84], [CHR 0xE2, CHR 0x80, CHR 0x85],
      [CHR 0xE2, CHR 0x80, CHR 0x86], [CHR 0xE2, CHR 0x80, CHR 0x87], [CHR 0xE2, CHR 0x80, CHR 0x88],
      [CHR 0xE2, CHR 0x80, CHR 0x89], [CHR 0xE2, CHR 0x80, CHR 0x8A],
      [CHR 0xE2, CHR 0x80, CHR 0xA8], [CHR 0xE2, CHR 0x80, CHR 0xA9], [CHR 0xE2, CHR 0x80, CHR 0xAF],
      [CHR 0xE2, CHR 0x81, CHR 0x9F], [CHR 0xE3, CHR 0x80, CHR 0x80]]"
  by (simp add: space_encodings_def space_runes_def EncodeRune_def char_of_def bit_0)

lemma DecodeRune_spaces:
  "DecodeRune (CHR 0xC2 # CHR 0x85 # r) = (0x85, 2)"
  "DecodeRune (CHR 0xC2 # CHR 0xA0 # r) = (0xA0, 2)"
  "DecodeRune (CHR 0xE1 # CHR 0x9A # CHR 0x80 # r) = (0x1680, 3)"
  "DecodeRune (CHR 0xE2 # CHR 0x80 # CHR 0x80 # r) = (0x2000, 3)"
  "DecodeRune (CHR 0xE2 # CHR 0x80 # CHR 0x81 # r) = (0x2001, 3)"
  "DecodeRune (CHR 0xE2 # CHR 0x80 # CHR 0x82 # r) = (0x2002, 3)"
  "DecodeRune (CHR 0xE2 # CHR 0x80 # CHR 0x83 # r) = (0x2003, 3)"
  "DecodeRune (CHR 0xE2 # CHR 0x80 # CHR 0x84 # r) = (0x2004, 3)"
  "DecodeRune (CHR 0xE2 # CHR 0x80 # CHR 0x85 # r) = (0x2005, 3)"
  "DecodeRune (CHR 0xE2 # CHR 0x80 # CHR 0x86 # r) = (0x2006, 3)"
  "DecodeRune (CHR 0xE2 # CHR 0x80 # CHR 0x87 # r) = (0x2007, 3)"
  "DecodeRune (CHR 0xE2 # CHR 0x80 # CHR 0x88 # r) = (0x2008, 3)"
  "DecodeRune (CHR 0xE2 # CHR 0x80 # CHR 0x89 # r) = (0x2009, 3)"
  "DecodeRune (CHR 0xE2 # CHR 0x80 # CHR 0x8A # r) = (0x200A, 3)"
  "DecodeRune (CHR 0xE2 # CHR 0x80 # CHR 0xA8 # r) = (0x2028, 3)"
  "DecodeRune (CHR 0xE2 # CHR 0x80 # CHR 0xA9 # r) = (0x2029, 3)"
  "DecodeRune (CHR 0xE2 # CHR 0x80 # CHR 0xAF # r) = (0x202F, 3)"
  "DecodeRune (CHR 0xE2 # CHR 0x81 # CHR 0x9F # r) = (0x205F, 3)"
  "DecodeRune (CHR 0xE3 # CHR 0x80 # CHR 0x80 # r) = (0x3000, 3)"
  by (simp_all add: DecodeRune_def first_def acceptRanges_def Let_def)

lemma space_encoding_decodes:
  assumes "e \<in> set space_encodings"
  shows "(\<exists>c. e = [c] \<and> asciiSpace c) \<or>
         ((of_char (hd e) :: nat) \<ge> RuneSelf \<and> IsSpace (fst (DecodeRune (e @ r))) \<and>
          snd (DecodeRune (e @ r)) = length e)"
  using assms unfolding space_encodings_list
  apply (simp only: list.set insert_iff empty_iff)
  apply (elim disjE FalseE)
  apply (simp_all add: asciiSpace_def RuneSelf_def DecodeRune_spaces IsSpace_def)
  done

lemma asciiSpace_IsSpace: "asciiSpace c \<Longrightarrow> IsSpace (of_char c)"
  by (auto simp: asciiSpace_def IsSpace_def)

lemma indexFunc_loop_space_run:
  "space_run t \<Longrightarrow> indexFunc_loop (p @ t) IsSpace False (length p) = None"
proof (induction t arbitrary: p rule: space_run.induct)
  case space_run_Nil
  show ?case by (subst indexFunc_loop.simps) simp
next
  case (space_run_Cons e r)
  have ih: "indexFunc_loop (p @ e @ r) IsSpace False (length p + length e) = None"
    using space_run_Cons.IH [of "p @ e"] by simp
  from space_encoding_decodes [OF space_run_Cons.hyps(1), of r]
  show ?case
  proof
    assume "\<exists>c. e = [c] \<and> asciiSpace c"
    then obtain c where c: "e = [c]" "asciiSpace c" by blast
    have a: "\<not> (of_char c :: nat) \<ge> RuneSelf" using asciiSpace_ascii [OF c(2)] by simp
    show ?thesis
      using ih c a asciiSpace_IsSpace [OF c(2)]
      by (subst indexFunc_loop.simps) simp
  next
    assume m: "(of_char (hd e) :: nat) \<ge> RuneSelf \<and> IsSpace (fst (DecodeRune (e @ r))) \<and>
          snd (DecodeRune (e @ r)) = length e"
    have ne: "e \<noteq> []" using space_run_Cons.hyps(1) unfolding space_encodings_list by auto
    then have h: "(p @ e @ r) ! length p = hd e" by (cases e) (simp_all add: nth_append)
    have mx: "max 1 (length e) = length e" using ne by (cases e) simp_all
    show ?thesis
      using ih m ne h mx
      by (subst indexFunc_loop.simps) (simp add: Let_def)
  qed
qed

lemma TrimFunc_space_run: "space_run t \<Longrightarrow> TrimFunc t IsSpace = []"
proof -
  assume "space_run t"
  then have "indexFunc t IsSpace False = None"
    using indexFunc_loop_space_run [of t "[]"] by (simp add: indexFunc_def)
  then have "TrimLeftFunc t IsSpace = []" by (simp add: TrimLeftFunc_def)
  then show ?thesis
    by (simp add: TrimFunc_def TrimRightFunc_def lastIndexFunc_def lastIndexFunc_loop.simps)
qed

lemma trim_start_space_run:
  "space_run t \<Longrightarrow> trim_start (p @ t) (length p) = Inl [] \<or> trim_start (p @ t) (length p) = Inr (length (p @ t))"
proof (induction t arbitrary: p rule: space_run.induct)
  case space_run_Nil
  show ?case by (subst (1 2) trim_start.simps) simp
next
  case (space_run_Cons e r)
  have sr: "space_run (e @ r)" using space_run_Cons.hyps by (rule space_run.space_run_Cons)
  from space_encoding_decodes [OF space_run_Cons.hyps(1), of r]
  show ?case
  proof
    assume "\<exists>c. e = [c] \<and> asciiSpace c"
    then obtain c where c: "e = [c]" "asciiSpace c" by blast
    have a: "\<not> (of_char c :: nat) \<ge> RuneSelf" using asciiSpace_ascii [OF c(2)] by simp
    have "trim_start (p @ e @ r) (length p) = trim_start ((p @ e) @ r) (length (p @ e))"
      using c a by (subst trim_start.simps) simp
    then show ?thesis using space_run_Cons.IH [of "p @ e"] by simp
  next
    assume m: "(of_char (hd e) :: nat) \<ge> RuneSelf \<and> IsSpace (fst (DecodeRune (e @ r))) \<and>
          snd (DecodeRune (e @ r)) = length e"
    have ne: "e \<noteq> []" using space_run_Cons.hyps(1) unfolding space_encodings_list by auto
    then have h: "(p @ e @ r) ! length p = hd e" by (cases e) (simp_all add: nth_append)
    have "trim_start (p @ e @ r) (length p) = Inl (TrimFunc (e @ r) IsSpace)"
      using m ne h by (subst trim_start.simps) simp
    then show ?thesis using TrimFunc_space_run [OF sr] by simp
  qed
qed

lemma TrimSpace_space_run: "space_run s \<Longrightarrow> TrimSpace s = []"
  using trim_start_space_run [of s "[]"]
  by (auto simp: TrimSpace_def trim_stop.simps)

lemma space_run_sample: "space_run [CHR 0x20, CHR 0xC2, CHR 0xA0, CHR 0x0A, CHR 0xE2, CHR 0x80, CHR 0x83]"
proof -
  have 1: "[CHR 0x20] \<in> set space_encodings" by (simp add: space_encodings_list)
  have 2: "[CHR 0xC2, CHR 0xA0] \<in> set space_encodings" by (simp add: space_encodings_list)
  have 3: "[CHR 0x0A] \<in> set space_encodings" by (simp add: space_encodings_list)
  have 4: "[CHR 0xE2, CHR 0x80, CHR 0x83] \<in> set space_encodings" by (simp add: space_encodings_list)
  from space_run_Cons [OF 1 space_run_Cons [OF 2 space_run_Cons [OF 3 space_run_Cons [OF 4 space_run_Nil]]]]
  show ?thesis by simp
qed








section \<open>The four exits of the handler\<close>

lemma parse_json_empty: "parse_json [] = None"
  by (simp add: parse_json_def)

lemma Unmarshal_empty: "Unmarshal [] = Inl SyntaxError"
  by (simp add: Unmarshal_def parse_json_empty)

lemma Unmarshal_ok_nonempty: "Unmarshal body = Inr mb \<Longrightarrow> body \<noteq> []"
  using Unmarshal_empty by auto

lemma extract_msg_decoded: "Unmarshal body = Inr mb \<Longrightarrow> extract_msg body = TrimSpace body"
  using Unmarshal_ok_nonempty [of body mb] by (simp add: extract_msg_def)

lemma Handle_connect_fail:
  "connect_error nats = Some e \<Longrightarrow>
   Handle nats req =
     ((\<lparr>RespBody = ''can not connect to nats: '' @ e, StatusCode = StatusInternalServerError\<rparr>,
       Some (NatsError e)),
      [Println (''Received body: '' @ Body req),
       Connect ''tls://connect.ngs.global'' ''/var/openfaas/secrets/nts-tkn'',
       LogPrintf (''can not connect to nats: '' @ e) []])"
  by (simp add: Handle_def Let_def)

lemma Handle_decode_fail:
  "connect_error nats = None \<Longrightarrow> Unmarshal (Body req) = Inl je \<Longrightarrow>
   Handle nats req =
     ((\<lparr>RespBody = ''Error unmarshalling request body'', StatusCode = StatusInternalServerError\<rparr>,
       None),
      [Println (''Received body: '' @ Body req),
       Connect ''tls://connect.ngs.global'' ''/var/openfaas/secrets/nts-tkn'',
       LogPrintf ''request body: %s'' [ArgBytes (Body req)],
       JsonUnmarshal (Body req),
       LogPrintf ''Error unmarshalling request body: %s'' [ArgError je],
       Close])"
  by (simp add: Handle_def Let_def)

lemma Handle_publish_fail:
  "connect_error nats = None \<Longrightarrow> Unmarshal (Body req) = Inr mb \<Longrightarrow>
   publish_error nats (Runner mb @ ''.response'') (InboxId mb) (extract_msg (Body req)) = Some e \<Longrightarrow>
   Handle nats req =
     ((\<lparr>RespBody = ''can not publish to NATS: '' @ e, StatusCode = StatusInternalServerError\<rparr>,
       Some (NatsError e)),
      [Println (''Received body: '' @ Body req),
       Connect ''tls://connect.ngs.global'' ''/var/openfaas/secrets/nts-tkn'',
       LogPrintf ''request body: %s'' [ArgBytes (Body req)],
       JsonUnmarshal (Body req),
       LogPrintf ''Publishing %d bytes to: %q\<newline>''
         [ArgInt (length (extract_msg (Body req))), ArgString (InboxId mb)],
       PublishRequest (Runner mb @ ''.response'') (InboxId mb) (extract_msg (Body req)),
       LogPrintf ''Error publishing to nats: %s'' [ArgError (NatsError e)],
       Close])"
  by (simp add: Handle_def Let_def)

lemma Handle_success:
  "connect_error nats = None \<Longrightarrow> Unmarshal (Body req) = Inr mb \<Longrightarrow>
   publish_error nats (Runner mb @ ''.response'') (InboxId mb) (extract_msg (Body req)) = None \<Longrightarrow>
   Handle nats req =
     ((\<lparr>RespBody = ''Published '' @ itoa (length (extract_msg (Body req))) @ '' bytes to: \"runner\"'',
        StatusCode = StatusOK\<rparr>,
       None),
      [Println (''Received body: '' @ Body req),
       Connect ''tls://connect.ngs.global'' ''/var/openfaas/secrets/nts-tkn'',
       LogPrintf ''request body: %s'' [ArgBytes (Body req)],
       JsonUnmarshal (Body req),
       LogPrintf ''Publishing %d bytes to: %q\<newline>''
         [ArgInt (length (extract_msg (Body req))), ArgString (InboxId mb)],
       PublishRequest (Runner mb @ ''.response'') (InboxId mb) (extract_msg (Body req)),
       Close])"
  by (simp add: Handle_def Let_def)


section \<open>Evaluations and auxiliary facts\<close>

lemma env1_dec:
  "Unmarshal env1 =
     Inr \<lparr>InboxId = ''abc123'', Output = Some (JArray [JNumber ''1'', JObject []]), Runner = ''workerA''\<rparr>"
  unfolding env1_def by code_simp

lemma env1_trim:
  "TrimSpace env1 = ''{\"inbox_id\":\"abc123\",\"runner\":\"workerA\",\"output\":[1,{}]}''"
  unfolding env1_def by code_simp

lemma hello_dec: "Unmarshal ''hello'' = Inl SyntaxError"
  by code_simp

lemma notjson_dec: "Unmarshal ''{\"runner\":5}'' = Inl UnmarshalTypeError"
  by code_simp

lemma empty_object_dec: "Unmarshal ''{}'' = Inr zero_MessageBody"
  by code_simp

lemma empty_object_trim: "TrimSpace ''{}'' = ''{}''"
  by code_simp

lemma env2_dec: "Unmarshal env2 = Inr \<lparr>InboxId = [], Output = None, Runner = ''workerA''\<rparr>"
  unfolding env2_def by code_simp

lemma env2_msg: "extract_msg env2 = env2"
  unfolding env2_def by code_simp

lemma itoa_20: "itoa 20 = ''20''"
  by code_simp

lemma Handle_trace_ends_with_Close:
  assumes "connect_error nats = None"
  shows "last (trace (Handle nats req)) = Close \<and> count_list (trace (Handle nats req)) Close = 1"
proof (cases "Unmarshal (Body req)")
  case (Inl je)
  show ?thesis by (simp add: Handle_decode_fail [OF assms Inl] trace_def)
next
  case (Inr mb)
  show ?thesis
  proof (cases "publish_error nats (Runner mb @ ''.response'') (InboxId mb) (extract_msg (Body req))")
    case None
    show ?thesis by (simp add: Handle_success [OF assms Inr None] trace_def)
  next
    case (Some e)
    show ?thesis by (simp add: Handle_publish_fail [OF assms Inr Some] trace_def)
  qed
qed

lemma digit_val_char_of: "n < 10 \<Longrightarrow> digit_val (char_of (0x30 + n)) = n"
  by (simp add: digit_val_def)

lemma itoa_decimal: "foldl (\<lambda>a c. a * 10 + digit_val c) 0 (itoa n) = n"
proof (induction n rule: itoa.induct)
  case (1 n)
  show ?case
  proof (cases "n < 10")
    case True
    then show ?thesis by (subst itoa.simps) (simp add: digit_val_char_of)
  next
    case False
    have "n mod 10 < 10" by simp
    then have "digit_val (char_of (0x30 + n mod 10)) = n mod 10" by (rule digit_val_char_of)
    then show ?thesis
      using False "1.IH" [OF False] by (subst itoa.simps) simp
  qed
qed

section \<open>Which bodies decode, and to what\<close>






















text \<open>
  Claim C1. When the connection succeeds, the body decodes to an envelope and the publish
  succeeds, the handler makes exactly one \<^verbatim>\<open>PublishRequest\<close>: its subject is the decoded
  runner followed by \<^verbatim>\<open>.response\<close>, its reply address is the decoded inbox id as it is,
  its payload is the body with the surrounding white space trimmed; the status is 200 and
  the returned error is nil. For the envelope with inbox id \<^verbatim>\<open>abc123\<close> and runner
  \<^verbatim>\<open>workerA\<close> the subject is \<^verbatim>\<open>workerA.response\<close> and the reply address \<^verbatim>\<open>abc123\<close>.
\<close>

theorem Handle_valid_envelope_publishes:
  assumes "connect_error nats = None"
    and "Unmarshal (Body req) = Inr mb"
    and "publish_error nats (Runner mb @ ''.response'') (InboxId mb) (TrimSpace (Body req)) = None"
  shows "publishes (trace (Handle nats req)) =
           [PublishRequest (Runner mb @ ''.response'') (InboxId mb) (TrimSpace (Body req))] \<and>
         StatusCode (response (Handle nats req)) = StatusOK \<and>
         returned_error (Handle nats req) = None"
proof -
  have m: "extract_msg (Body req) = TrimSpace (Body req)"
    using assms(2) by (rule extract_msg_decoded)
  have p: "publish_error nats (Runner mb @ ''.response'') (InboxId mb) (extract_msg (Body req)) = None"
    using assms(3) m by simp
  show ?thesis
    using m
    by (simp add: Handle_success [OF assms(1,2) p] publishes_def trace_def response_def returned_error_def)
qed

theorem Handle_valid_envelope_publishes_witness:
  "connect_error broker_ok = None \<and>
   Unmarshal env1 =
     Inr \<lparr>InboxId = ''abc123'', Output = Some (JArray [JNumber ''1'', JObject []]), Runner = ''workerA''\<rparr> \<and>
   publishes (trace (Handle broker_ok \<lparr>Body = env1\<rparr>)) =
     [PublishRequest ''workerA.response'' ''abc123''
        ''{\"inbox_id\":\"abc123\",\"runner\":\"workerA\",\"output\":[1,{}]}''] \<and>
   StatusCode (response (Handle broker_ok \<lparr>Body = env1\<rparr>)) = 200 \<and>
   returned_error (Handle broker_ok \<lparr>Body = env1\<rparr>) = None"
proof -
  have c: "connect_error broker_ok = None" by (simp add: broker_ok_def)
  have d: "Unmarshal (Body \<lparr>Body = env1\<rparr>) =
             Inr \<lparr>InboxId = ''abc123'', Output = Some (JArray [JNumber ''1'', JObject []]), Runner = ''workerA''\<rparr>"
    using env1_dec by simp
  have p: "publish_error broker_ok
             (Runner \<lparr>InboxId = ''abc123'', Output = Some (JArray [JNumber ''1'', JObject []]), Runner = ''workerA''\<rparr> @ ''.response'')
             (InboxId \<lparr>InboxId = ''abc123'', Output = Some (JArray [JNumber ''1'', JObject []]), Runner = ''workerA''\<rparr>)
             (TrimSpace (Body \<lparr>Body = env1\<rparr>)) = None"
    by (simp add: broker_ok_def)
  from Handle_valid_envelope_publishes [OF c d p] c env1_dec env1_trim
  show ?thesis by (simp add: StatusOK_def)
qed

text \<open>
  Claim C2. When the connection succeeded and the body does not decode, the response is
  status 500 with the body \<^verbatim>\<open>Error unmarshalling request body\<close> and nothing is
  published.
\<close>

theorem Handle_invalid_envelope:
  assumes "connect_error nats = None" and "Unmarshal (Body req) = Inl e"
  shows "response (Handle nats req) =
           \<lparr>RespBody = ''Error unmarshalling request body'', StatusCode = 500\<rparr> \<and>
         publishes (trace (Handle nats req)) = []"
  by (simp add: Handle_decode_fail [OF assms] response_def trace_def publishes_def
      StatusInternalServerError_def)

theorem Handle_invalid_envelope_witness:
  "connect_error broker_ok = None \<and> Unmarshal ''hello'' = Inl SyntaxError \<and>
   response (Handle broker_ok \<lparr>Body = ''hello''\<rparr>) =
     \<lparr>RespBody = ''Error unmarshalling request body'', StatusCode = 500\<rparr> \<and>
   publishes (trace (Handle broker_ok \<lparr>Body = ''hello''\<rparr>)) = []"
proof -
  have c: "connect_error broker_ok = None" by (simp add: broker_ok_def)
  have d: "Unmarshal (Body \<lparr>Body = ''hello''\<rparr>) = Inl SyntaxError" using hello_dec by simp
  from Handle_invalid_envelope [OF c d] c hello_dec show ?thesis by simp
qed

text \<open>
  Claim C3, as the code has it. For the empty body the message prepared for publication
  is \<^verbatim>\<open>default message\<close>, but the empty body is not JSON: decoding fails, the response is
  status 500 and nothing is published.
\<close>

theorem Handle_empty_body_rejected:
  assumes "connect_error nats = None"
  shows "extract_msg (Body \<lparr>Body = []\<rparr>) = ''default message'' \<and>
         Unmarshal (Body \<lparr>Body = []\<rparr>) = Inl SyntaxError \<and>
         response (Handle nats \<lparr>Body = []\<rparr>) =
           \<lparr>RespBody = ''Error unmarshalling request body'', StatusCode = 500\<rparr> \<and>
         publishes (trace (Handle nats \<lparr>Body = []\<rparr>)) = []"
proof -
  have d: "Unmarshal (Body \<lparr>Body = []\<rparr>) = Inl SyntaxError" by (simp add: Unmarshal_empty)
  show ?thesis
    by (simp add: Handle_decode_fail [OF assms d] d response_def trace_def publishes_def
        StatusInternalServerError_def extract_msg_def del: Request.simps)
       (simp add: extract_msg_def)
qed

theorem Handle_empty_body_rejected_witness:
  "connect_error broker_ok = None \<and>
   response (Handle broker_ok \<lparr>Body = []\<rparr>) =
     \<lparr>RespBody = ''Error unmarshalling request body'', StatusCode = 500\<rparr> \<and>
   publishes (trace (Handle broker_ok \<lparr>Body = []\<rparr>)) = []"
proof -
  have c: "connect_error broker_ok = None" by (simp add: broker_ok_def)
  from Handle_empty_body_rejected [OF c] c show ?thesis by simp
qed

text \<open>
  Claim C4. When decoding fails, the error returned with the response is the variable that
  holds the result of the connection, which is nil on this path; it is not the decoding
  error. The response is status 500 and nothing is published.
\<close>

theorem Handle_decode_failure_returns_connect_err:
  assumes "connect_error nats = None" and "Unmarshal (Body req) = Inl e"
  shows "returned_error (Handle nats req) = map_option NatsError (connect_error nats) \<and>
         returned_error (Handle nats req) = None \<and>
         returned_error (Handle nats req) \<noteq> Some e \<and>
         StatusCode (response (Handle nats req)) = 500 \<and>
         publishes (trace (Handle nats req)) = []"
  using assms(1)
  by (simp add: Handle_decode_fail [OF assms] returned_error_def response_def trace_def
      publishes_def StatusInternalServerError_def)

theorem Handle_decode_failure_returns_connect_err_witness:
  "connect_error broker_ok = None \<and> Unmarshal ''{\"runner\":5}'' = Inl UnmarshalTypeError \<and>
   returned_error (Handle broker_ok \<lparr>Body = ''{\"runner\":5}''\<rparr>) = None \<and>
   StatusCode (response (Handle broker_ok \<lparr>Body = ''{\"runner\":5}''\<rparr>)) = 500 \<and>
   publishes (trace (Handle broker_ok \<lparr>Body = ''{\"runner\":5}''\<rparr>)) = []"
proof -
  have c: "connect_error broker_ok = None" by (simp add: broker_ok_def)
  have d: "Unmarshal (Body \<lparr>Body = ''{\"runner\":5}''\<rparr>) = Inl UnmarshalTypeError"
    using notjson_dec by simp
  from Handle_decode_failure_returns_connect_err [OF c d] c notjson_dec show ?thesis by simp
qed

text \<open>
  Claim C5. When the connection fails, the response is status 500, its body is
  \<^verbatim>\<open>can not connect to nats: \<close> followed by the text of the connection error, that error
  is the returned error, and the handler neither decodes the body nor publishes.
\<close>

theorem Handle_connect_failure:
  assumes "connect_error nats = Some e"
  shows "response (Handle nats req) =
           \<lparr>RespBody = ''can not connect to nats: '' @ e, StatusCode = 500\<rparr> \<and>
         returned_error (Handle nats req) = Some (NatsError e) \<and>
         decodes (trace (Handle nats req)) = [] \<and>
         publishes (trace (Handle nats req)) = [] \<and>
         trace (Handle nats req) =
           [Println (''Received body: '' @ Body req),
            Connect ''tls://connect.ngs.global'' ''/var/openfaas/secrets/nts-tkn'',
            LogPrintf (''can not connect to nats: '' @ e) []]"
  by (simp add: Handle_connect_fail [OF assms] response_def returned_error_def trace_def
      decodes_def publishes_def StatusInternalServerError_def)

theorem Handle_connect_failure_witness:
  "connect_error broker_down = Some ''nats: no servers available for connection'' \<and>
   response (Handle broker_down \<lparr>Body = ''{}''\<rparr>) =
     \<lparr>RespBody = ''can not connect to nats: nats: no servers available for connection'',
      StatusCode = 500\<rparr> \<and>
   returned_error (Handle broker_down \<lparr>Body = ''{}''\<rparr>) =
     Some (NatsError ''nats: no servers available for connection'') \<and>
   decodes (trace (Handle broker_down \<lparr>Body = ''{}''\<rparr>)) = [] \<and>
   publishes (trace (Handle broker_down \<lparr>Body = ''{}''\<rparr>)) = []"
proof -
  have c: "connect_error broker_down = Some ''nats: no servers available for connection''"
    by (simp add: broker_down_def)
  from Handle_connect_failure [OF c, of "\<lparr>Body = ''{}''\<rparr>"] c show ?thesis
    by (simp add: decodes_def publishes_def)
qed

text \<open>
  Claim C6. When the connection and the decoding succeed and the publish fails, the
  response is status 500, its body is \<^verbatim>\<open>can not publish to NATS: \<close> followed by the text
  of the publish error, and the connection is closed: \<open>Close\<close> is the last event, once.
  The same holds for every request once the connection succeeded.
\<close>

theorem Handle_publish_failure:
  assumes "connect_error nats = None"
    and "Unmarshal (Body req) = Inr mb"
    and "publish_error nats (Runner mb @ ''.response'') (InboxId mb) (extract_msg (Body req)) = Some e"
  shows "response (Handle nats req) =
           \<lparr>RespBody = ''can not publish to NATS: '' @ e, StatusCode = 500\<rparr> \<and>
         returned_error (Handle nats req) = Some (NatsError e) \<and>
         last (trace (Handle nats req)) = Close \<and>
         count_list (trace (Handle nats req)) Close = 1 \<and>
         (\<forall>req'. last (trace (Handle nats req')) = Close \<and>
                 count_list (trace (Handle nats req')) Close = 1)"
proof -
  have a: "\<forall>req'. last (trace (Handle nats req')) = Close \<and>
                count_list (trace (Handle nats req')) Close = 1"
    using Handle_trace_ends_with_Close [OF assms(1)] by blast
  have b: "response (Handle nats req) =
             \<lparr>RespBody = ''can not publish to NATS: '' @ e, StatusCode = 500\<rparr> \<and>
           returned_error (Handle nats req) = Some (NatsError e)"
    by (simp add: Handle_publish_fail [OF assms] response_def returned_error_def
        StatusInternalServerError_def)
  from a b show ?thesis by blast
qed

theorem Handle_publish_failure_witness:
  "connect_error broker_closed = None \<and>
   Unmarshal ''{}'' = Inr zero_MessageBody \<and>
   publish_error broker_closed ''.response'' [] ''{}'' = Some ''nats: connection closed'' \<and>
   response (Handle broker_closed \<lparr>Body = ''{}''\<rparr>) =
     \<lparr>RespBody = ''can not publish to NATS: nats: connection closed'', StatusCode = 500\<rparr> \<and>
   returned_error (Handle broker_closed \<lparr>Body = ''{}''\<rparr>) =
     Some (NatsError ''nats: connection closed'') \<and>
   last (trace (Handle broker_closed \<lparr>Body = ''{}''\<rparr>)) = Close"
proof -
  have c: "connect_error broker_closed = None" by (simp add: broker_closed_def)
  have d: "Unmarshal (Body \<lparr>Body = ''{}''\<rparr>) = Inr zero_MessageBody"
    using empty_object_dec by simp
  have p: "publish_error broker_closed (Runner zero_MessageBody @ ''.response'')
             (InboxId zero_MessageBody) (extract_msg (Body \<lparr>Body = ''{}''\<rparr>)) =
           Some ''nats: connection closed''"
    by (simp add: broker_closed_def)
  have p': "publish_error broker_closed ''.response'' [] ''{}'' = Some ''nats: connection closed''"
    by (simp add: broker_closed_def)
  from Handle_publish_failure [OF c d p] c empty_object_dec p' show ?thesis by simp
qed



text \<open>
  Claim C8. On full success the response is status 200 and its body is \<^verbatim>\<open>Published \<close>,
  the number of bytes of the payload in decimal, and \<^verbatim>\<open> bytes to: "runner"\<close>: the name
  in quotes is the literal word, whatever runner was decoded (\<^verbatim>\<open>workerA\<close> in the
  witness).
\<close>

theorem Handle_success_response:
  assumes "connect_error nats = None"
    and "Unmarshal (Body req) = Inr mb"
    and "publish_error nats (Runner mb @ ''.response'') (InboxId mb) (extract_msg (Body req)) = None"
  shows "response (Handle nats req) =
           \<lparr>RespBody = ''Published '' @ itoa (length (extract_msg (Body req))) @ '' bytes to: \"runner\"'',
            StatusCode = 200\<rparr> \<and>
         foldl (\<lambda>a c. a * 10 + digit_val c) 0 (itoa (length (extract_msg (Body req)))) =
           length (extract_msg (Body req)) \<and>
         publishes (trace (Handle nats req)) =
           [PublishRequest (Runner mb @ ''.response'') (InboxId mb) (extract_msg (Body req))]"
  by (simp add: Handle_success [OF assms] response_def StatusOK_def itoa_decimal publishes_def trace_def)

theorem Handle_success_response_witness:
  "connect_error broker_ok = None \<and>
   Unmarshal env2 = Inr \<lparr>InboxId = [], Output = None, Runner = ''workerA''\<rparr> \<and>
   response (Handle broker_ok \<lparr>Body = env2\<rparr>) =
     \<lparr>RespBody = ''Published 20 bytes to: \"runner\"'', StatusCode = 200\<rparr> \<and>
   publishes (trace (Handle broker_ok \<lparr>Body = env2\<rparr>)) =
     [PublishRequest ''workerA.response'' [] env2]"
proof -
  have c: "connect_error broker_ok = None" by (simp add: broker_ok_def)
  have d: "Unmarshal (Body \<lparr>Body = env2\<rparr>) = Inr \<lparr>InboxId = [], Output = None, Runner = ''workerA''\<rparr>"
    using env2_dec by simp
  have p: "publish_error broker_ok (Runner \<lparr>InboxId = [], Output = None, Runner = ''workerA''\<rparr> @ ''.response'')
             (InboxId \<lparr>InboxId = [], Output = None, Runner = ''workerA''\<rparr>)
             (extract_msg (Body \<lparr>Body = env2\<rparr>)) = None"
    by (simp add: broker_ok_def)
  have l: "length env2 = 20" by (simp add: env2_def)
  from Handle_success_response [OF c d p] c env2_dec env2_msg l itoa_20
  show ?thesis by simp
qed




text \<open>
  Claim C10. An empty body gives the default message; a non-empty body gives its trimmed
  bytes, whatever they are; and a non-empty body made only of white space (the UTF-8
  encodings of the Unicode White_Space code points, among them tab, line feed, carriage
  return and space) gives the empty string, which is not the default message. So the
  default is chosen by the length of the body being zero, never by the trimmed body being
  empty.
\<close>

theorem extract_msg_whitespace_only:
  "extract_msg [] = ''default message'' \<and>
   (body \<noteq> [] \<longrightarrow> extract_msg body = TrimSpace body) \<and>
   (body \<noteq> [] \<and> space_run body \<longrightarrow>
      extract_msg body = [] \<and> extract_msg body \<noteq> ''default message'')"
  by (simp add: extract_msg_def TrimSpace_space_run)

theorem extract_msg_whitespace_only_witness:
  "[CHR 0x20, CHR 0xC2, CHR 0xA0, CHR 0x0A, CHR 0xE2, CHR 0x80, CHR 0x83] \<noteq> [] \<and>
   space_run [CHR 0x20, CHR 0xC2, CHR 0xA0, CHR 0x0A, CHR 0xE2, CHR 0x80, CHR 0x83] \<and>
   extract_msg [CHR 0x20, CHR 0xC2, CHR 0xA0, CHR 0x0A, CHR 0xE2, CHR 0x80, CHR 0x83] = [] \<and>
   extract_msg [CHR 0x20, CHR 0xC2, CHR 0xA0, CHR 0x0A, CHR 0xE2, CHR 0x80, CHR 0x83] \<noteq> ''default message''"
proof -
  have h: "[CHR 0x20, CHR 0xC2, CHR 0xA0, CHR 0x0A, CHR 0xE2, CHR 0x80, CHR 0x83] \<noteq> [] \<and>
      space_run [CHR 0x20, CHR 0xC2, CHR 0xA0, CHR 0x0A, CHR 0xE2, CHR 0x80, CHR 0x83]"
    using space_run_sample by simp
  from extract_msg_whitespace_only [of "[CHR 0x20, CHR 0xC2, CHR 0xA0, CHR 0x0A, CHR 0xE2, CHR 0x80, CHR 0x83]"] h
  have "extract_msg [CHR 0x20, CHR 0xC2, CHR 0xA0, CHR 0x0A, CHR 0xE2, CHR 0x80, CHR 0x83] = [] \<and>
        extract_msg [CHR 0x20, CHR 0xC2, CHR 0xA0, CHR 0x0A, CHR 0xE2, CHR 0x80, CHR 0x83] \<noteq> ''default message''"
    by blast
  with h show ?thesis by blast
qed

end
